theory Spec2Isabelle
  imports Complex_Main
begin

section \<open>Python values\<close>

text \<open>
  The functions of \<^verbatim>\<open>my_functions/wcc.py\<close> work on Python floats. A finite float is
  read as the real number it denotes and arithmetic on finite floats is the arithmetic of
  the reals. The one non-finite value the code produces by itself is the NaN that pandas
  returns for the mean of an empty selection: a float is therefore a \<open>real option\<close>, with
  \<open>None\<close> for NaN. NaN is absorbing for \<open>+\<close> and \<open>*\<close>, and every comparison with NaN
  is false.
\<close>

type_synonym pyfloat = "real option"

definition fadd :: "pyfloat \<Rightarrow> pyfloat \<Rightarrow> pyfloat" where
  "fadd x y = (case x of None \<Rightarrow> None | Some a \<Rightarrow> (case y of None \<Rightarrow> None | Some b \<Rightarrow> Some (a + b)))"

definition fmul :: "pyfloat \<Rightarrow> pyfloat \<Rightarrow> pyfloat" where
  "fmul x y = (case x of None \<Rightarrow> None | Some a \<Rightarrow> (case y of None \<Rightarrow> None | Some b \<Rightarrow> Some (a * b)))"

definition fge :: "pyfloat \<Rightarrow> real \<Rightarrow> bool" where
  "fge x c = (case x of None \<Rightarrow> False | Some a \<Rightarrow> c \<le> a)"

definition fle :: "pyfloat \<Rightarrow> real \<Rightarrow> bool" where
  "fle x c = (case x of None \<Rightarrow> False | Some a \<Rightarrow> a \<le> c)"

definition fgt :: "pyfloat \<Rightarrow> real \<Rightarrow> bool" where
  "fgt x c = (case x of None \<Rightarrow> False | Some a \<Rightarrow> c < a)"

text \<open>The exceptions the four functions can raise.\<close>

datatype error =
    ValueError_species     \<comment> \<open>species in neither tariff table (wcc.py line 193)\<close>
  | ValueError_category    \<comment> \<open>species in neither category set (wcc.py line 469)\<close>
  | ValueError_nan         \<comment> \<open>\<^verbatim>\<open>math.floor\<close> or \<^verbatim>\<open>round\<close> of NaN to an integer\<close>
  | KeyError               \<comment> \<open>subscript of a dict with a missing key\<close>
  | ZeroDivisionError      \<comment> \<open>\<^verbatim>\<open>index % len(species_list)\<close> with an empty list\<close>

text \<open>\<^verbatim>\<open>int(x)\<close> on a float truncates toward zero.\<close>

definition py_int :: "real \<Rightarrow> int" where
  "py_int x = (if 0 \<le> x then \<lfloor>x\<rfloor> else \<lceil>x\<rceil>)"

text \<open>
  \<^verbatim>\<open>round\<close>: to the nearest integer, a tie going to the even neighbour;
  \<^verbatim>\<open>round(x, 1)\<close> does the same at the first decimal. The result of
  \<^verbatim>\<open>round(x, 1)\<close> and the keys of the height tables are written as the decimals \<open>k / 10\<close>
  they print as; each stands for the float nearest to it, so two of them are the same float
  exactly when they are the same decimal.
\<close>

definition round_half_even :: "real \<Rightarrow> int" where
  "round_half_even x =
     (let f = \<lfloor>x\<rfloor>; d = x - of_int f
      in if d < 1/2 then f else if 1/2 < d then f + 1 else if even f then f else f + 1)"

definition round1 :: "real \<Rightarrow> real" where
  "round1 x = of_int (round_half_even (x * 10)) / 10"

text \<open>\<^verbatim>\<open>Series.mean()\<close>: NaN on an empty selection.\<close>

definition mean :: "real list \<Rightarrow> pyfloat" where
  "mean xs = (if xs = [] then None else Some (sum_list xs / real (length xs)))"

section \<open>tree_statistics\<close>

text \<open>
  One row of the inventory dataframe, with the four columns the function reads. The
  dataframe is the list of its rows.
\<close>

record row =
  Type :: string
  Year :: int
  DBH :: real
  top_height :: real

text \<open>The inner dict of \<^verbatim>\<open>species_distribution\<close>.\<close>

record alloc =
  trees :: int
  saplings :: int
  largetrees :: int

text \<open>
  The dict \<^verbatim>\<open>percentages\<close> is the list of its items in insertion order (its keys are
  distinct); \<^verbatim>\<open>species_distribution\<close> is a map from species to \<open>alloc\<close>.
\<close>

type_synonym distribution = "string \<rightharpoonup> alloc"

text \<open>
  The dict returned by the function. For the two large-tree means the Python \<^verbatim>\<open>None\<close> of
  a stratum without large trees is \<open>None\<close> as well: a mean over at least one row is never
  NaN.
\<close>

record tree_stats =
  number_of_trees :: int
  number_of_saplings :: int
  number_of_largetrees :: int
  mean_tree_height :: pyfloat
  mean_dbh_trees :: pyfloat
  mean_sapling_height :: pyfloat
  mean_dbh_saplings :: pyfloat
  mean_largetree_height :: pyfloat
  mean_dbh_largetrees :: pyfloat
  quadratic_mean_dbh :: pyfloat
  mean_basal_area :: pyfloat
  species_distribution :: distribution

text \<open>
  Lines 54 to 67: the initial allocation. The state of the loop is the distribution built
  so far and the three running totals.
\<close>

fun initial_allocation ::
  "int \<Rightarrow> int \<Rightarrow> int \<Rightarrow> (string \<times> real) list \<Rightarrow> distribution \<times> int \<times> int \<times> int
     \<Rightarrow> distribution \<times> int \<times> int \<times> int" where
  "initial_allocation nt ns nl [] st = st"
| "initial_allocation nt ns nl ((species, percentage) # rest)
       (sd, total_trees_allocated, total_saplings_allocated, total_large_trees_allocated) =
     (let num_trees = py_int (of_int nt * percentage);
          num_saplings = py_int (of_int ns * percentage);
          num_large_trees = py_int (of_int nl * percentage)
      in initial_allocation nt ns nl rest
           (sd(species \<mapsto> \<lparr>trees = num_trees, saplings = num_saplings, largetrees = num_large_trees\<rparr>),
            total_trees_allocated + num_trees, total_saplings_allocated + num_saplings,
            total_large_trees_allocated + num_large_trees))"

text \<open>
  Lines 77 to 92: the three remainder loops. They are the same loop on the three keys
  \<^verbatim>\<open>'trees'\<close>, \<^verbatim>\<open>'saplings'\<close> and \<^verbatim>\<open>'largetrees'\<close>, so the model has one loop with the key
  as a parameter.
\<close>

datatype cls = Trees | Saplings | Largetrees

fun count_of :: "cls \<Rightarrow> alloc \<Rightarrow> int" where
  "count_of Trees a = trees a"
| "count_of Saplings a = saplings a"
| "count_of Largetrees a = largetrees a"

fun add_one :: "cls \<Rightarrow> alloc \<Rightarrow> alloc" where
  "add_one Trees a = a\<lparr>trees := trees a + 1\<rparr>"
| "add_one Saplings a = a\<lparr>saplings := saplings a + 1\<rparr>"
| "add_one Largetrees a = a\<lparr>largetrees := largetrees a + 1\<rparr>"

function distribute :: "cls \<Rightarrow> string list \<Rightarrow> int \<Rightarrow> nat \<Rightarrow> distribution \<Rightarrow> error + distribution" where
  "distribute c species_list remaining index sd =
     (if 0 < remaining then
        (if length species_list = 0 then Inl ZeroDivisionError
         else (case sd (species_list ! (index mod length species_list)) of
                 None \<Rightarrow> Inl KeyError
               | Some a \<Rightarrow>
                   distribute c species_list (remaining - 1) (index + 1)
                     (sd(species_list ! (index mod length species_list) \<mapsto> add_one c a))))
      else Inr sd)"
  by pat_completeness auto
termination
  by (relation "measure (\<lambda>(c, species_list, remaining, index, sd). nat remaining)") auto

declare distribute.simps [simp del]

definition tree_statistics ::
  "row list \<Rightarrow> (string \<times> real) list \<Rightarrow> string \<Rightarrow> int \<Rightarrow> error + tree_stats" where
  "tree_statistics df percentages planting_mix year =
     (let filtered_df_trees =
            filter (\<lambda>r. Type r = planting_mix \<and> Year r = year \<and> 7 < DBH r) df;
          filtered_df_saplings =
            filter (\<lambda>r. Type r = planting_mix \<and> Year r = year \<and> DBH r \<le> 7) df;
          filtered_df_largetrees =
            filter (\<lambda>r. Type r = planting_mix \<and> Year r = year \<and> 50 < DBH r) df;
          n_trees = int (length filtered_df_trees);
          n_saplings = int (length filtered_df_saplings);
          n_largetrees = int (length filtered_df_largetrees);
          st = initial_allocation n_trees n_saplings n_largetrees percentages (Map.empty, 0, 0, 0);
          sd0 = fst st;
          remaining_trees = n_trees - fst (snd st);
          remaining_saplings = n_saplings - fst (snd (snd st));
          remaining_large_trees = n_largetrees - snd (snd (snd st));
          species_list = map fst percentages
      in case distribute Trees species_list remaining_trees 0 sd0 of
           Inl e \<Rightarrow> Inl e
         | Inr sd1 \<Rightarrow>
        (case distribute Saplings species_list remaining_saplings 0 sd1 of
           Inl e \<Rightarrow> Inl e
         | Inr sd2 \<Rightarrow>
        (case distribute Largetrees species_list remaining_large_trees 0 sd2 of
           Inl e \<Rightarrow> Inl e
         | Inr sd3 \<Rightarrow>
        (let qmd = map_option (\<lambda>m. round1 (sqrt m))
                     (mean (map (\<lambda>r. (DBH r)\<^sup>2) filtered_df_trees))
         in Inr \<lparr>number_of_trees = n_trees,
                 number_of_saplings = n_saplings,
                 number_of_largetrees = n_largetrees,
                 mean_tree_height = mean (map top_height filtered_df_trees),
                 mean_dbh_trees = mean (map DBH filtered_df_trees),
                 mean_sapling_height = mean (map top_height filtered_df_saplings),
                 mean_dbh_saplings = mean (map DBH filtered_df_saplings),
                 mean_largetree_height =
                   (if 0 < n_largetrees then mean (map top_height filtered_df_largetrees) else None),
                 mean_dbh_largetrees =
                   (if 0 < n_largetrees then mean (map DBH filtered_df_largetrees) else None),
                 quadratic_mean_dbh = qmd,
                 mean_basal_area = map_option (\<lambda>q. pi * (q / 200)\<^sup>2) qmd,
                 species_distribution = sd3\<rparr>))))"

text \<open>
  The figures the claims about the allocation speak of: the count a species holds under one
  key (0 for a species without an entry), the sum of these counts over the species of
  \<^verbatim>\<open>percentages\<close>, the class total reported in the result, and the sum of the truncated
  shares \<^verbatim>\<open>int(n * percentage)\<close> of the initial allocation.
\<close>

definition count_at :: "cls \<Rightarrow> distribution \<Rightarrow> string \<Rightarrow> int" where
  "count_at c sd k = (case sd k of None \<Rightarrow> 0 | Some a \<Rightarrow> count_of c a)"



definition initial_total :: "int \<Rightarrow> (string \<times> real) list \<Rightarrow> int" where
  "initial_total n percentages =
     sum_list (map (\<lambda>(species, percentage). py_int (of_int n * percentage)) percentages)"





section \<open>calculate_tariff_numbers_and_volume\<close>

text \<open>The two coefficient tables; a dict literal is the map of its items.\<close>

definition broadleaf_constants :: "string \<rightharpoonup> real \<times> real \<times> real \<times> real" where
  "broadleaf_constants = map_of
     [(''oak'', (5.88300, 2.01230, - 0.0054780, - 0.0057397)),
      (''beech'', (7.48490, 1.92620, - 0.0037881, - 0.0082745)),
      (''sycamore'', (9.76130, 1.58670, - 0.0569660, - 0.0033867)),
      (''ash'', (9.16050, 2.02560, - 0.0668420, - 0.0044172)),
      (''birch'', (5.62370, 2.23800, 0.0871700, - 0.0332620)),
      (''elm'', (6.28870, 1.69950, 0.0285120, - 0.0069294)),
      (''poplar'', (10.90625, 1.05327, 0.0, 0.0))]"

definition conifer_constants :: "string \<rightharpoonup> real \<times> real \<times> real" where
  "conifer_constants = map_of
     [(''Scots pine'', (9.817387, 1.177486, - 0.114174)),
      (''Corsican pine'', (5.070842, 1.754053, - 0.193834)),
      (''lodgepole pine'', (8.855292, 1.951643, - 0.689619)),
      (''Sitka spruce'', (8.292030, 1.771173, - 0.416509)),
      (''Norway spruce'', (9.939311, 1.985697, - 0.650625)),
      (''European larch'', (5.562167, 1.908473, - 0.426567)),
      (''Japanese larch'', (8.478127, 1.788768, - 0.449816)),
      (''Douglas fir'', (10.397480, 1.477313, - 0.325653)),
      (''western hemlock'', (8.762511, 1.959230, - 0.586275)),
      (''western red cedar'', (10.637312, 1.735383, - 0.630551)),
      (''grand fir'', (6.565630, 2.043490, - 0.591550)),
      (''noble fir'', (7.028548, 1.930016, - 0.373808))]"

text \<open>
  Lines 182 to 193: the tariff number before flooring. The conifer table is tried first;
  a species in neither table raises.
\<close>

definition tariff_formula :: "tree_stats \<Rightarrow> string \<Rightarrow> error + pyfloat" where
  "tariff_formula tree_stats species =
     (case conifer_constants species of
        Some (a1, a2, a3) \<Rightarrow>
          Inr (fadd (fadd (Some a1) (fmul (Some a2) (mean_tree_height tree_stats)))
                    (fmul (Some a3) (mean_dbh_trees tree_stats)))
      | None \<Rightarrow>
         (case broadleaf_constants species of
            Some (a1, a2, a3, a4) \<Rightarrow>
              Inr (fadd (fadd (fadd (Some a1) (fmul (Some a2) (mean_tree_height tree_stats)))
                              (fmul (Some a3) (mean_dbh_trees tree_stats)))
                        (fmul (fmul (Some a4) (mean_dbh_trees tree_stats)) (mean_tree_height tree_stats)))
          | None \<Rightarrow> Inl ValueError_species))"

text \<open>\<^verbatim>\<open>math.floor\<close>: the floor as an integer; NaN raises \<^verbatim>\<open>ValueError\<close>.\<close>

definition math_floor :: "pyfloat \<Rightarrow> error + int" where
  "math_floor x = (case x of None \<Rightarrow> Inl ValueError_nan | Some v \<Rightarrow> Inr \<lfloor>v\<rfloor>)"

text \<open>Lines 214 to 267: the step table of the volume correction.\<close>

definition multiplication_factor :: "pyfloat \<Rightarrow> real" where
  "multiplication_factor mean_dbh =
     (if fge mean_dbh 33 then 1.00
      else if fge mean_dbh 32 then 1.01
      else if fge mean_dbh 31 then 1.01
      else if fge mean_dbh 30 then 1.01
      else if fge mean_dbh 29 then 1.01
      else if fge mean_dbh 28 then 1.01
      else if fge mean_dbh 27 then 1.01
      else if fge mean_dbh 26 then 1.01
      else if fge mean_dbh 25 then 1.01
      else if fge mean_dbh 24 then 1.01
      else if fge mean_dbh 23 then 1.01
      else if fge mean_dbh 22 then 1.01
      else if fge mean_dbh 21 then 1.02
      else if fge mean_dbh 20 then 1.02
      else if fge mean_dbh 19 then 1.02
      else if fge mean_dbh 18 then 1.02
      else if fge mean_dbh 17 then 1.03
      else if fge mean_dbh 16 then 1.03
      else if fge mean_dbh 15 then 1.04
      else if fge mean_dbh 14 then 1.05
      else if fge mean_dbh 13 then 1.06
      else if fge mean_dbh 12 then 1.07
      else if fge mean_dbh 11 then 1.09
      else if fge mean_dbh 10 then 1.12
      else if fge mean_dbh 9 then 1.15
      else if fge mean_dbh 8 then 1.19
      else 1.30)"

record volume_stats =
  tariff_number :: int
  mean_tree_volume :: pyfloat
  total_stem_volume :: pyfloat

definition calculate_tariff_numbers_and_volume :: "tree_stats \<Rightarrow> string \<Rightarrow> error + volume_stats" where
  "calculate_tariff_numbers_and_volume tree_stats species =
     (case tariff_formula tree_stats species of
        Inl e \<Rightarrow> Inl e
      | Inr raw \<Rightarrow>
       (case math_floor raw of
          Inl e \<Rightarrow> Inl e
        | Inr tariff \<Rightarrow>
         (let a2 = 0.315049301 * (of_int tariff - 0.138763302);
              a1 = (0.0360541 * of_int tariff) - (a2 * 0.118288);
              mean_volume = fadd (Some a1) (fmul (Some a2) (mean_basal_area tree_stats))
          in case species_distribution tree_stats species of
               None \<Rightarrow> Inl KeyError
             | Some al \<Rightarrow>
                (let total_volume = fmul mean_volume (Some (of_int (trees al)));
                     total_stem = fmul total_volume
                                    (Some (multiplication_factor (mean_dbh_trees tree_stats)))
                 in Inr \<lparr>tariff_number = tariff,
                         mean_tree_volume = mean_volume,
                         total_stem_volume = total_stem\<rparr>))))"

section \<open>calculate_biomass\<close>

definition nominal_specific_gravity :: "string \<rightharpoonup> real" where
  "nominal_specific_gravity = map_of
     [(''Scots pine'', 0.42),
      (''Corsican pine'', 0.40),
      (''lodgepole pine'', 0.39),
      (''maritime pine'', 0.41),
      (''Weymouth pine'', 0.29),
      (''Sitka spruce'', 0.33),
      (''Norway spruce'', 0.33),
      (''Omorika spruce'', 0.33),
      (''European larch'', 0.45),
      (''Japanese larch'', 0.41),
      (''hybrid larch'', 0.38),
      (''Douglas fir'', 0.41),
      (''western hemlock'', 0.36),
      (''western red cedar'', 0.31),
      (''Lawson cypress'', 0.33),
      (''Leyland cypress'', 0.38),
      (''grand fir'', 0.30),
      (''noble fir'', 0.31),
      (''silver fir'', 0.38),
      (''oak'', 0.56),
      (''red oak'', 0.57),
      (''beech'', 0.55),
      (''sycamore'', 0.49),
      (''ash'', 0.53),
      (''birch'', 0.53),
      (''poplar'', 0.35),
      (''sweet chestnut'', 0.44),
      (''horse chestnut'', 0.44),
      (''alder'', 0.42),
      (''lime'', 0.44),
      (''elm'', 0.43),
      (''wych elm'', 0.50),
      (''wild cherry'', 0.50),
      (''hornbeam'', 0.57)]"

definition crown_biomass_coefficients_7_to_50 :: "string \<rightharpoonup> real \<times> real" where
  "crown_biomass_coefficients_7_to_50 = map_of
     [(''European larch'', (0.0000438717, 2.0291)),
      (''Corsican pine'', (0.0000122645, 2.4767)),
      (''lodgepole pine'', (0.0000176287, 2.4767)),
      (''Scots pine'', (0.0000161411, 2.4767)),
      (''firs, spruces, cedars, hemlocks'', (0.0000144620, 2.4767)),
      (''Douglas fir'', (0.0000168602, 2.4767)),
      (''Beech'', (0.0000188154, 2.4767)),
      (''oak'', (0.0000168513, 2.4767))]"

definition crown_biomass_coefficients_above_50 :: "string \<rightharpoonup> real \<times> real" where
  "crown_biomass_coefficients_above_50 = map_of
     [(''European larch'', (- 0.129046967, 0.005039011)),
      (''Corsican pine'', (- 0.299529453, 0.009948982)),
      (''lodgepole pine'', (- 0.430536496, 0.014300429)),
      (''Scots pine'', (- 0.394205622, 0.013093685)),
      (''firs, spruces, cedars, hemlocks'', (- 0.353197843, 0.011731597)),
      (''Douglas fir'', (- 0.411767824, 0.013677021)),
      (''Beech'', (- 0.459518648, 0.015263082)),
      (''oak'', (- 0.411550464, 0.013669801))]"

definition root_biomass_coefficients_8 :: "string \<rightharpoonup> real" where
  "root_biomass_coefficients_8 = map_of
     [(''western red cedar'', 0.000010722),
      (''noble fir'', 0.000010722),
      (''Corsican pine'', 0.000010722),
      (''Norway spruce'', 0.000011883),
      (''grand fir'', 0.000015404),
      (''Scots pine'', 0.000015404),
      (''western hemlock'', 0.000015404),
      (''Douglas fir'', 0.000017326),
      (''European larch'', 0.000017326),
      (''lodgepole pine'', 0.000017326),
      (''Sitka spruce'', 0.000020454),
      (''red alder'', 0.000022700)]"

definition root_biomass_coefficients_9 :: "string \<rightharpoonup> real \<times> real" where
  "root_biomass_coefficients_9 = map_of
     [(''western red cedar'', (- 0.082602857, 0.004515233)),
      (''noble fir'', (- 0.082602857, 0.004515233)),
      (''Corsican pine'', (- 0.082602857, 0.004515233)),
      (''Norway spruce'', (- 0.091547262, 0.005004152)),
      (''grand fir'', (- 0.118673233, 0.006486910)),
      (''Scots pine'', (- 0.118673233, 0.006486910)),
      (''western hemlock'', (- 0.118673233, 0.006486910)),
      (''Douglas fir'', (- 0.133480423, 0.007296300)),
      (''European larch'', (- 0.133480423, 0.007296300)),
      (''lodgepole pine'', (- 0.133480423, 0.007296300)),
      (''Sitka spruce'', (- 0.157578701, 0.008613559)),
      (''red alder'', (- 0.174882004, 0.009559391))]"

text \<open>\<^verbatim>\<open>d.get(key, default)\<close>.\<close>

definition get_default :: "('k \<rightharpoonup> 'v) \<Rightarrow> 'k \<Rightarrow> 'v \<Rightarrow> 'v" where
  "get_default d key dflt = (case d key of None \<Rightarrow> dflt | Some v \<Rightarrow> v)"

text \<open>
  \<^verbatim>\<open>x ** y\<close> on floats, for the exponents the function uses (0, 2.4767, 2.0291, 2.5, all
  non-negative): the real power of a positive base, \<open>0 ** 0 = 1\<close> and \<open>0 ** y = 0\<close>
  otherwise, NaN for a negative base and a fractional exponent as in numpy, and NaN for a NaN
  base unless the exponent is 0.
\<close>

definition fpow :: "pyfloat \<Rightarrow> real \<Rightarrow> pyfloat" where
  "fpow x y =
     (case x of
        None \<Rightarrow> (if y = 0 then Some 1 else None)
      | Some a \<Rightarrow>
          (if 0 < a then Some (a powr y)
           else if y = 0 then Some 1
           else if a = 0 then Some 0
           else None))"

record biomass_stats =
  total_stem_biomass :: pyfloat
  total_crown_biomass :: pyfloat
  total_root_biomass :: pyfloat
  total_AGB :: pyfloat
  total_biomass :: pyfloat

definition calculate_biomass :: "tree_stats \<Rightarrow> string \<Rightarrow> volume_stats \<Rightarrow> error + biomass_stats" where
  "calculate_biomass tree_stats species volume_stats =
     (let nsg = get_default nominal_specific_gravity species 0;
          stem_biomass = fmul (total_stem_volume volume_stats) (Some nsg);
          mean_dbh = mean_dbh_trees tree_stats;
          crown_biomass =
            (if fge mean_dbh 7 \<and> fle mean_dbh 50 then
               (case get_default crown_biomass_coefficients_7_to_50 species (0, 0) of
                  (b, p) \<Rightarrow> fmul (Some b) (fpow mean_dbh p))
             else if fgt mean_dbh 50 then
               (case get_default crown_biomass_coefficients_above_50 species (0, 0) of
                  (a, b) \<Rightarrow> fadd (Some a) (fmul (Some b) mean_dbh))
             else Some 0);
          root_biomass =
            (if fle mean_dbh 30 then
               fmul (Some (get_default root_biomass_coefficients_8 species 0)) (fpow mean_dbh 2.5)
             else
               (case get_default root_biomass_coefficients_9 species (0, 0) of
                  (a, b) \<Rightarrow> fadd (Some a) (fmul (Some b) mean_dbh)))
      in case species_distribution tree_stats species of
           None \<Rightarrow> Inl KeyError
         | Some al \<Rightarrow>
            (let num_trees = Some (of_int (trees al));
                 crown_total = fmul crown_biomass num_trees;
                 root_total = fmul root_biomass num_trees;
                 agb = fadd stem_biomass crown_total
             in Inr \<lparr>total_stem_biomass = stem_biomass,
                     total_crown_biomass = crown_total,
                     total_root_biomass = root_total,
                     total_AGB = agb,
                     total_biomass = fadd agb root_total\<rparr>))"

section \<open>calculate_carbon_and_co2_for_trees_and_saplings\<close>

text \<open>
  \<^verbatim>\<open>str.lower\<close>, on the ASCII letters (the species names of the tables are ASCII).
\<close>

definition lower_char :: "char \<Rightarrow> char" where
  "lower_char c =
     (case map_of (zip ''ABCDEFGHIJKLMNOPQRSTUVWXYZ'' ''abcdefghijklmnopqrstuvwxyz'') c of
        None \<Rightarrow> c
      | Some l \<Rightarrow> l)"

definition lower :: "string \<Rightarrow> string" where
  "lower s = map lower_char s"

definition broadleaves :: "string list" where
  "broadleaves = [''red alder'', ''beech'', ''oak'']"

definition conifers :: "string list" where
  "conifers = [''western red cedar'', ''noble fir'', ''corsican pine'', ''norway spruce'',
               ''grand fir'', ''scots pine'', ''western hemlock'', ''douglas fir'',
               ''japanese larch'', ''lodgepole pine'', ''sitka spruce'', ''european larch'']"

text \<open>Lines 464 to 469: \<^verbatim>\<open>is_broadleaf\<close>, or the \<^verbatim>\<open>ValueError\<close>.\<close>

definition is_broadleaf :: "string \<Rightarrow> error + bool" where
  "is_broadleaf species =
     (if lower species \<in> set broadleaves then Inr True
      else if lower species \<in> set conifers then Inr False
      else Inl ValueError_category)"

definition broadleaf_carbon_content_per_stem :: "real \<rightharpoonup> real" where
  "broadleaf_carbon_content_per_stem = map_of
     [(0.6, 0.0000182), (0.7, 0.0000250), (0.8, 0.0000328), (0.9, 0.0000418),
      (1.0, 0.0000519), (1.1, 0.0000631), (1.2, 0.0000754), (1.3, 0.0000889),
      (1.4, 0.0001036), (1.5, 0.0001194), (1.6, 0.0001365), (1.7, 0.0001547),
      (1.8, 0.0001742), (1.9, 0.0001949), (2.0, 0.0002168), (2.1, 0.0002400),
      (2.2, 0.0002645), (2.3, 0.0002903), (2.4, 0.0003174), (2.5, 0.0003459),
      (2.6, 0.0003757), (2.7, 0.0004069), (2.8, 0.0004395), (2.9, 0.0004736),
      (3.0, 0.0005090), (3.1, 0.0005460), (3.2, 0.0005845), (3.3, 0.0006245),
      (3.4, 0.0006661), (3.5, 0.0007093), (3.6, 0.0007541), (3.7, 0.0008006),
      (3.8, 0.0008488), (3.9, 0.0008987), (4.0, 0.0009504), (4.1, 0.0010039),
      (4.2, 0.0010593), (4.3, 0.0011166), (4.4, 0.0011759), (4.5, 0.0012372),
      (4.6, 0.0013005), (4.7, 0.0013660), (4.8, 0.0014336), (4.9, 0.0015034),
      (5.0, 0.0015756), (5.1, 0.0016501), (5.2, 0.0017270), (5.3, 0.0018065),
      (5.4, 0.0018885), (5.5, 0.0019732), (5.6, 0.0020606), (5.7, 0.0021509),
      (5.8, 0.0022440), (5.9, 0.0023402), (6.0, 0.0024396), (6.1, 0.0025421),
      (6.2, 0.0026480), (6.3, 0.0027574), (6.4, 0.0028703), (6.5, 0.0029870),
      (6.6, 0.0031076), (6.7, 0.0032321), (6.8, 0.0033608), (6.9, 0.0034939),
      (7.0, 0.0036315), (7.1, 0.0037737), (7.2, 0.0039209), (7.3, 0.0040731),
      (7.4, 0.0042307), (7.5, 0.0043939), (7.6, 0.0045628), (7.7, 0.0047378),
      (7.8, 0.0049192), (7.9, 0.0051072), (8.0, 0.0053023), (8.1, 0.0055046),
      (8.2, 0.0057147), (8.3, 0.0059328), (8.4, 0.0061594), (8.5, 0.0063951),
      (8.6, 0.0066401), (8.7, 0.0068952), (8.8, 0.0071608), (8.9, 0.0074375),
      (9.0, 0.0077260), (9.1, 0.0080271), (9.2, 0.0083414), (9.3, 0.0086699),
      (9.4, 0.0090134), (9.5, 0.0093730), (9.6, 0.0097496), (9.7, 0.0101445),
      (9.8, 0.0105590), (9.9, 0.0109945), (10.0, 0.0114525)]"

definition conifer_carbon_content_per_stem :: "real \<rightharpoonup> real" where
  "conifer_carbon_content_per_stem = map_of
     [(0.6, 0.0000222), (0.7, 0.0000304), (0.8, 0.0000400), (0.9, 0.0000509),
      (1.0, 0.0000631), (1.1, 0.0000767), (1.2, 0.0000916), (1.3, 0.0001080),
      (1.4, 0.0001257), (1.5, 0.0001449), (1.6, 0.0001655), (1.7, 0.0001876),
      (1.8, 0.0002111), (1.9, 0.0002361), (2.0, 0.0002626), (2.1, 0.0002906),
      (2.2, 0.0003202), (2.3, 0.0003513), (2.4, 0.0003840), (2.5, 0.0004184),
      (2.6, 0.0004543), (2.7, 0.0004920), (2.8, 0.0005313), (2.9, 0.0005724),
      (3.0, 0.0006152), (3.1, 0.0006598), (3.2, 0.0007062), (3.3, 0.0007545),
      (3.4, 0.0008046), (3.5, 0.0008567), (3.6, 0.0009108), (3.7, 0.0009669),
      (3.8, 0.0010250), (3.9, 0.0010853), (4.0, 0.0011477), (4.1, 0.0012123),
      (4.2, 0.0012792), (4.3, 0.0013484), (4.4, 0.0014200), (4.5, 0.0014940),
      (4.6, 0.0015705), (4.7, 0.0016496), (4.8, 0.0017314), (4.9, 0.0018158),
      (5.0, 0.0019031), (5.1, 0.0019932), (5.2, 0.0020863), (5.3, 0.0021825),
      (5.4, 0.0022819), (5.5, 0.0023845), (5.6, 0.0024904), (5.7, 0.0025998),
      (5.8, 0.0027128), (5.9, 0.0028296), (6.0, 0.0029502), (6.1, 0.0030747),
      (6.2, 0.0032034), (6.3, 0.0033363), (6.4, 0.0034737), (6.5, 0.0036157),
      (6.6, 0.0037625), (6.7, 0.0039143), (6.8, 0.0040712), (6.9, 0.0042336),
      (7.0, 0.0044015), (7.1, 0.0045753), (7.2, 0.0047552), (7.3, 0.0049415),
      (7.4, 0.0051344), (7.5, 0.0053343), (7.6, 0.0055415), (7.7, 0.0057564),
      (7.8, 0.0059792), (7.9, 0.0062105), (8.0, 0.0064505), (8.1, 0.0066999),
      (8.2, 0.0069589), (8.3, 0.0072283), (8.4, 0.0075085), (8.5, 0.0078002),
      (8.6, 0.0081039), (8.7, 0.0084204), (8.8, 0.0087504), (8.9, 0.0090948),
      (9.0, 0.0094544), (9.1, 0.0098301), (9.2, 0.0102231), (9.3, 0.0106345),
      (9.4, 0.0110655), (9.5, 0.0115174), (9.6, 0.0119917), (9.7, 0.0124900),
      (9.8, 0.0130142), (9.9, 0.0135662), (10.0, 0.0141482)]"

text \<open>
  Lines 506 and 535: the carbon of one sapling. The broadleaf table is read at the height
  rounded to one decimal; \<^verbatim>\<open>round(nan, 1)\<close> is NaN, which is no key, so the default 0
  is returned. The conifer table is read at the height rounded to an integer;
  \<^verbatim>\<open>round(nan)\<close> raises \<^verbatim>\<open>ValueError\<close>.
\<close>

definition sapling_carbon_content :: "bool \<Rightarrow> pyfloat \<Rightarrow> error + real" where
  "sapling_carbon_content broadleaf mean_sapling_h =
     (if broadleaf then
        (case mean_sapling_h of
           None \<Rightarrow> Inr 0
         | Some h \<Rightarrow> Inr (get_default broadleaf_carbon_content_per_stem (round1 h) 0))
      else
        (case mean_sapling_h of
           None \<Rightarrow> Inl ValueError_nan
         | Some h \<Rightarrow>
             Inr (get_default conifer_carbon_content_per_stem (of_int (round_half_even h)) 0)))"

record carbon_stats =
  total_carbon_trees :: pyfloat
  total_co2_trees :: pyfloat
  total_carbon_saplings :: real
  total_co2_saplings :: real
  total_carbon :: pyfloat
  total_co2 :: pyfloat

definition calculate_carbon_and_co2_for_trees_and_saplings ::
  "biomass_stats \<Rightarrow> string \<Rightarrow> int \<Rightarrow> pyfloat \<Rightarrow> error + carbon_stats" where
  "calculate_carbon_and_co2_for_trees_and_saplings biomass_stats species num_saplings mean_sapling_h =
     (case is_broadleaf species of
        Inl e \<Rightarrow> Inl e
      | Inr broadleaf \<Rightarrow>
         (let carbon_trees = fmul (total_biomass biomass_stats) (Some 0.5);
              co2_trees = fmul carbon_trees (Some (44 / 12))
          in case sapling_carbon_content broadleaf mean_sapling_h of
               Inl e \<Rightarrow> Inl e
             | Inr content \<Rightarrow>
                (let carbon_saplings = content * of_int num_saplings;
                     co2_saplings = carbon_saplings * (44 / 12)
                 in Inr \<lparr>total_carbon_trees = carbon_trees,
                         total_co2_trees = co2_trees,
                         total_carbon_saplings = carbon_saplings,
                         total_co2_saplings = co2_saplings,
                         total_carbon = fadd carbon_trees (Some carbon_saplings),
                         total_co2 = fadd co2_trees (Some co2_saplings)\<rparr>)))"

section \<open>calculate_and_print_species_biomass_and_carbon\<close>

text \<open>
  Lines 609 to 617: the work done for one species, without the printing. The two counts are
  read from \<^verbatim>\<open>species_distribution\<close> first, then the three functions are called in turn;
  an exception of any of them ends the run.
\<close>

definition species_pipeline :: "tree_stats \<Rightarrow> string \<Rightarrow> error + biomass_stats \<times> carbon_stats" where
  "species_pipeline tree_stats species =
     (case species_distribution tree_stats species of
        None \<Rightarrow> Inl KeyError
      | Some al \<Rightarrow>
         (case calculate_tariff_numbers_and_volume tree_stats species of
            Inl e \<Rightarrow> Inl e
          | Inr volume_stats \<Rightarrow>
             (case calculate_biomass tree_stats species volume_stats of
                Inl e \<Rightarrow> Inl e
              | Inr biomass_stats \<Rightarrow>
                 (case calculate_carbon_and_co2_for_trees_and_saplings biomass_stats species
                         (saplings al) (mean_sapling_height tree_stats) of
                    Inl e \<Rightarrow> Inl e
                  | Inr carbon_co2_stats \<Rightarrow> Inr (biomass_stats, carbon_co2_stats)))))"

record aggregates =
  total_biomass_all_species :: pyfloat
  total_carbon_all_species :: pyfloat
  total_co2_all_species :: pyfloat
  total_co2_trees_all_species :: pyfloat
  total_co2_saplings_all_species :: pyfloat

text \<open>Lines 607 to 641: the loop over the species, with the five running totals.\<close>

fun species_loop :: "tree_stats \<Rightarrow> string list \<Rightarrow> aggregates \<Rightarrow> error + aggregates" where
  "species_loop tree_stats [] acc = Inr acc"
| "species_loop tree_stats (species # rest) acc =
     (case species_pipeline tree_stats species of
        Inl e \<Rightarrow> Inl e
      | Inr (biomass_stats, carbon_co2_stats) \<Rightarrow>
          species_loop tree_stats rest
            \<lparr>total_biomass_all_species =
               fadd (total_biomass_all_species acc) (total_biomass biomass_stats),
             total_carbon_all_species =
               fadd (total_carbon_all_species acc) (total_carbon carbon_co2_stats),
             total_co2_all_species =
               fadd (total_co2_all_species acc) (total_co2 carbon_co2_stats),
             total_co2_trees_all_species =
               fadd (total_co2_trees_all_species acc) (total_co2_trees carbon_co2_stats),
             total_co2_saplings_all_species =
               fadd (total_co2_saplings_all_species acc) (Some (total_co2_saplings carbon_co2_stats))\<rparr>)"

definition calculate_and_print_species_biomass_and_carbon ::
  "tree_stats \<Rightarrow> (string \<times> real) list \<Rightarrow> error + aggregates" where
  "calculate_and_print_species_biomass_and_carbon tree_stats species_percentages =
     species_loop tree_stats (map fst species_percentages)
       \<lparr>total_biomass_all_species = Some 0,
        total_carbon_all_species = Some 0,
        total_co2_all_species = Some 0,
        total_co2_trees_all_species = Some 0,
        total_co2_saplings_all_species = Some 0\<rparr>"

section \<open>Example inputs\<close>

text \<open>The stratum with diameters 5, 8, 60 and heights 2, 10, 25.\<close>

definition stratum_5_8_60 :: "row list" where
  "stratum_5_8_60 =
     [\<lparr>Type = ''Mixed Wood'', Year = 1, DBH = 5, top_height = 2\<rparr>,
      \<lparr>Type = ''Mixed Wood'', Year = 1, DBH = 8, top_height = 10\<rparr>,
      \<lparr>Type = ''Mixed Wood'', Year = 1, DBH = 60, top_height = 25\<rparr>]"

text \<open>A stand with mean height 10 and mean diameter 20, holding oak and Scots pine.\<close>

definition stand_10_20 :: tree_stats where
  "stand_10_20 =
     \<lparr>number_of_trees = 4, number_of_saplings = 2, number_of_largetrees = 0,
      mean_tree_height = Some 10, mean_dbh_trees = Some 20,
      mean_sapling_height = Some 3, mean_dbh_saplings = Some 5,
      mean_largetree_height = None, mean_dbh_largetrees = None,
      quadratic_mean_dbh = Some 20, mean_basal_area = Some (pi * (20 / 200)\<^sup>2),
      species_distribution =
        [''oak'' \<mapsto> \<lparr>trees = 2, saplings = 1, largetrees = 0\<rparr>,
         ''Scots pine'' \<mapsto> \<lparr>trees = 2, saplings = 1, largetrees = 0\<rparr>]\<rparr>"

text \<open>The same stand holding beech and sycamore.\<close>

definition stand_beech :: tree_stats where
  "stand_beech =
     \<lparr>number_of_trees = 4, number_of_saplings = 2, number_of_largetrees = 0,
      mean_tree_height = Some 10, mean_dbh_trees = Some 20,
      mean_sapling_height = Some 3, mean_dbh_saplings = Some 5,
      mean_largetree_height = None, mean_dbh_largetrees = None,
      quadratic_mean_dbh = Some 20, mean_basal_area = Some (pi * (20 / 200)\<^sup>2),
      species_distribution =
        [''beech'' \<mapsto> \<lparr>trees = 2, saplings = 1, largetrees = 0\<rparr>,
         ''sycamore'' \<mapsto> \<lparr>trees = 2, saplings = 1, largetrees = 0\<rparr>]\<rparr>"

text \<open>A biomass result with a total biomass of 12 tonnes.\<close>

definition biomass_12 :: biomass_stats where
  "biomass_12 = \<lparr>total_stem_biomass = Some 6, total_crown_biomass = Some 2,
                  total_root_biomass = Some 4, total_AGB = Some 8, total_biomass = Some 12\<rparr>"

text \<open>
  The Python float written \<^verbatim>\<open>3.45\<close>: the binary64 number nearest to 3.45, which is
  \<open>7768709357214106 / 2 ^ 51\<close>. By the reading of floats above, it is this number that
  \<^verbatim>\<open>round\<close> receives when the function is called with \<^verbatim>\<open>3.45\<close>.
\<close>

definition float_3_45 :: real where
  "float_3_45 = 3884354678607053 / 1125899906842624"

section \<open>The allocation sums\<close>

text \<open>Updating the entry of one species changes the sum over distinct species by the difference.\<close>

lemma total_update_notin:
  "k \<notin> set ks \<Longrightarrow> sum_list (map (count_at c (sd(k \<mapsto> b))) ks) = sum_list (map (count_at c sd) ks)"
  by (induction ks) (auto simp: count_at_def)












text \<open>
  The initial shares do not exceed the class total when the proportions are non-negative and
  sum to at most 1.
\<close>

lemma initial_total_le:
  assumes "0 \<le> n" and "\<forall>(k, p) \<in> set ps. 0 \<le> p" and "sum_list (map snd ps) \<le> 1"
  shows "initial_total n ps \<le> n"
proof -
  have "real_of_int (initial_total n ps) \<le> of_int n * sum_list (map snd ps)"
    using assms(2)
  proof (induction ps)
    case Nil
    then show ?case by (simp add: initial_total_def)
  next
    case (Cons kp ps)
    obtain k p where kp: "kp = (k, p)" by (cases kp)
    with Cons.prems have p: "0 \<le> p" by simp
    then have "0 \<le> of_int n * p" using assms(1) by simp
    then have "real_of_int (py_int (of_int n * p)) \<le> of_int n * p"
      by (simp add: py_int_def)
    moreover have "real_of_int (initial_total n ps) \<le> of_int n * sum_list (map snd ps)"
      using Cons by simp
    ultimately show ?case by (simp add: kp initial_total_def algebra_simps)
  qed
  also have "\<dots> \<le> of_int n * 1"
    using assms(1,3) by (intro mult_left_mono) simp_all
  finally show ?thesis by simp
qed



section \<open>The quadratic mean diameter\<close>









section \<open>The tariff number\<close>

text \<open>No species is in both coefficient tables, so the order of the two tests does not matter.\<close>

lemma tables_disjoint:
  "broadleaf_constants species = Some x \<Longrightarrow> conifer_constants species = None"
  by (auto simp: broadleaf_constants_def conifer_constants_def split: if_splits)


lemma tariff_broadleaf:
  "broadleaf_constants species = Some (b1, b2, b3, b4) \<Longrightarrow>
   mean_tree_height ts = Some h \<Longrightarrow> mean_dbh_trees ts = Some d \<Longrightarrow>
   tariff_formula ts species = Inr (Some (b1 + b2 * h + b3 * d + b4 * d * h))"
  using tables_disjoint[of species "(b1, b2, b3, b4)"]
  by (simp add: tariff_formula_def fadd_def fmul_def)

lemma volume_returns:
  "tariff_formula ts species = Inr (Some t) \<Longrightarrow> species_distribution ts species = Some al \<Longrightarrow>
   \<exists>r. calculate_tariff_numbers_and_volume ts species = Inr r \<and> tariff_number r = \<lfloor>t\<rfloor>"
  by (simp add: calculate_tariff_numbers_and_volume_def math_floor_def Let_def)


lemma oak_constants: "broadleaf_constants ''oak'' = Some (5.88300, 2.01230, - 0.0054780, - 0.0057397)"
  by (simp add: broadleaf_constants_def)



section \<open>The volume correction\<close>








section \<open>Species outside the tariff tables\<close>

text \<open>
  Claim C5, as the code has it. A species in neither coefficient table makes the function
  raise the \<^verbatim>\<open>ValueError\<close> of line 193, whatever the stand. A species in one of the tables
  never raises that error, and the function returns once the mean height and diameter are
  numbers and the stand holds an allocation for the species.
\<close>

theorem tariff_species_error:
  "(conifer_constants species = None \<and> broadleaf_constants species = None \<longrightarrow>
      calculate_tariff_numbers_and_volume ts species = Inl ValueError_species) \<and>
   (conifer_constants species \<noteq> None \<or> broadleaf_constants species \<noteq> None \<longrightarrow>
      calculate_tariff_numbers_and_volume ts species \<noteq> Inl ValueError_species) \<and>
   ((conifer_constants species \<noteq> None \<or> broadleaf_constants species \<noteq> None) \<and>
    mean_tree_height ts \<noteq> None \<and> mean_dbh_trees ts \<noteq> None \<and>
    species_distribution ts species \<noteq> None \<longrightarrow>
      (\<exists>r. calculate_tariff_numbers_and_volume ts species = Inr r))"
proof (intro conjI impI)
  assume "conifer_constants species = None \<and> broadleaf_constants species = None"
  then show "calculate_tariff_numbers_and_volume ts species = Inl ValueError_species"
    by (simp add: calculate_tariff_numbers_and_volume_def tariff_formula_def)
next
  assume "conifer_constants species \<noteq> None \<or> broadleaf_constants species \<noteq> None"
  then show "calculate_tariff_numbers_and_volume ts species \<noteq> Inl ValueError_species"
    by (auto simp: calculate_tariff_numbers_and_volume_def tariff_formula_def math_floor_def Let_def
        split: option.splits sum.splits)
next
  assume a: "(conifer_constants species \<noteq> None \<or> broadleaf_constants species \<noteq> None) \<and>
    mean_tree_height ts \<noteq> None \<and> mean_dbh_trees ts \<noteq> None \<and>
    species_distribution ts species \<noteq> None"
  then obtain h d al where hd: "mean_tree_height ts = Some h" "mean_dbh_trees ts = Some d"
    "species_distribution ts species = Some al" by auto
  from a have "\<exists>t. tariff_formula ts species = Inr (Some t)"
    using hd by (auto simp: tariff_formula_def fadd_def fmul_def split: option.splits)
  then show "\<exists>r. calculate_tariff_numbers_and_volume ts species = Inr r"
    using volume_returns[OF _ hd(3)] by blast
qed

text \<open>An instance: \<^verbatim>\<open>unknown_species\<close> and oak on the example stand.\<close>

theorem tariff_species_error_witness:
  "calculate_tariff_numbers_and_volume stand_10_20 ''unknown_species'' = Inl ValueError_species \<and>
   calculate_tariff_numbers_and_volume stand_10_20 ''oak'' \<noteq> Inl ValueError_species \<and>
   (\<exists>r. calculate_tariff_numbers_and_volume stand_10_20 ''oak'' = Inr r)"
proof -
  have u: "conifer_constants ''unknown_species'' = None \<and> broadleaf_constants ''unknown_species'' = None"
    by (simp add: conifer_constants_def broadleaf_constants_def)
  have o: "conifer_constants ''oak'' \<noteq> None \<or> broadleaf_constants ''oak'' \<noteq> None"
    by (simp add: oak_constants)
  have s: "mean_tree_height stand_10_20 \<noteq> None \<and> mean_dbh_trees stand_10_20 \<noteq> None \<and>
    species_distribution stand_10_20 ''oak'' \<noteq> None"
    by (simp add: stand_10_20_def)
  from tariff_species_error[of "''unknown_species''" stand_10_20] u
    tariff_species_error[of "''oak''" stand_10_20] o s
  show ?thesis by blast
qed

text \<open>
  Claim C5 as stated fails for a species of the tables: on a stratum with saplings only the
  means of the (empty) tree class are NaN, the tariff number is NaN, and \<^verbatim>\<open>math.floor\<close>
  raises \<^verbatim>\<open>ValueError\<close> for oak.
\<close>

theorem tariff_raises_for_sapling_only_stratum:
  "(case tree_statistics [\<lparr>Type = ''Mixed Wood'', Year = 1, DBH = 5, top_height = 2\<rparr>]
           [(''oak'', 1)] ''Mixed Wood'' 1 of
      Inl e \<Rightarrow> Inl e
    | Inr tree_stats \<Rightarrow> calculate_tariff_numbers_and_volume tree_stats ''oak'')
   = Inl ValueError_nan \<and>
   broadleaf_constants ''oak'' = Some (5.88300, 2.01230, - 0.0054780, - 0.0057397)"
  by (simp add: tree_statistics_def py_int_def distribute.simps Let_def mean_def
      calculate_tariff_numbers_and_volume_def tariff_formula_def math_floor_def fadd_def fmul_def
      conifer_constants_def oak_constants)

text \<open>So does a stand that holds no allocation for the species: the subscript of line 210 raises.\<close>

lemma tariff_key_error:
  "calculate_tariff_numbers_and_volume
     (stand_10_20\<lparr>species_distribution := [''beech'' \<mapsto> \<lparr>trees = 4, saplings = 2, largetrees = 0\<rparr>]\<rparr>)
     ''oak'' = Inl KeyError"
  by (simp add: stand_10_20_def calculate_tariff_numbers_and_volume_def tariff_formula_def
      math_floor_def fadd_def fmul_def conifer_constants_def oak_constants Let_def)


section \<open>The sapling lookup at 3.45\<close>

lemma float_3_45_binary64:
  "float_3_45 = 7768709357214106 / 2 ^ 51 \<and> (2::real) ^ 52 \<le> 7768709357214106 \<and>
   (7768709357214106::real) < 2 ^ 53 \<and> \<bar>float_3_45 - 3.45\<bar> < 1 / 2 ^ 52 \<and> 3.45 < float_3_45"
  by (simp add: float_3_45_def)



text \<open>
  The decimal 3.45 itself is a tie between 3.4 and 3.5 and would go to the even 3.4; the
  float lies above it.
\<close>

lemma round1_tie_3_45: "round1 3.45 = 3.4"
  by (simp add: round1_def round_half_even_def Let_def)







section \<open>Carbon and carbon dioxide\<close>







section \<open>The crown biomass of beech\<close>

lemma beech_tables:
  "crown_biomass_coefficients_7_to_50 ''beech'' = None"
  "crown_biomass_coefficients_above_50 ''beech'' = None"
  "crown_biomass_coefficients_7_to_50 ''Beech'' = Some (0.0000188154, 2.4767)"
  "crown_biomass_coefficients_above_50 ''Beech'' = Some (- 0.459518648, 0.015263082)"
  "broadleaf_constants ''beech'' = Some (7.48490, 1.92620, - 0.0037881, - 0.0082745)"
  "nominal_specific_gravity ''beech'' = Some 0.55"
  by (simp_all add: crown_biomass_coefficients_7_to_50_def crown_biomass_coefficients_above_50_def
      broadleaf_constants_def nominal_specific_gravity_def)

text \<open>
  Claim C9. For the species \<^verbatim>\<open>'beech'\<close>, which the tariff and density tables hold, and a
  mean diameter of at least 7, \<open>calculate_biomass\<close> returns a total crown biomass of 0
  (given that the stand holds an allocation for beech): both crown tables spell the key
  \<^verbatim>\<open>'Beech'\<close>, so the lookup of \<^verbatim>\<open>'beech'\<close> falls to the default \<open>(0, 0)\<close>.
\<close>

theorem beech_crown_biomass_zero:
  assumes "mean_dbh_trees ts = Some d" and "7 \<le> d"
    and "species_distribution ts ''beech'' = Some al"
  shows "\<exists>r. calculate_biomass ts ''beech'' vs = Inr r \<and> total_crown_biomass r = Some 0 \<and>
           crown_biomass_coefficients_7_to_50 ''beech'' = None \<and>
           crown_biomass_coefficients_above_50 ''beech'' = None \<and>
           crown_biomass_coefficients_7_to_50 ''Beech'' \<noteq> None \<and>
           crown_biomass_coefficients_above_50 ''Beech'' \<noteq> None \<and>
           broadleaf_constants ''beech'' \<noteq> None \<and>
           nominal_specific_gravity ''beech'' \<noteq> None"
  using assms
  by (simp add: calculate_biomass_def Let_def get_default_def beech_tables fge_def fle_def fgt_def
      fmul_def fadd_def fpow_def)

text \<open>An instance: the example stand with beech, at mean diameter 20.\<close>

theorem beech_crown_biomass_zero_witness:
  "\<exists>r. calculate_biomass stand_beech ''beech''
          \<lparr>tariff_number = 24, mean_tree_volume = Some 1, total_stem_volume = Some 2\<rparr> = Inr r \<and>
        total_crown_biomass r = Some 0"
proof -
  have d: "mean_dbh_trees stand_beech = Some 20" and le: "(7::real) \<le> 20"
    and b: "species_distribution stand_beech ''beech'' = Some \<lparr>trees = 2, saplings = 1, largetrees = 0\<rparr>"
    by (simp_all add: stand_beech_def)
  from beech_crown_biomass_zero[OF d le b] show ?thesis by blast
qed



section \<open>Broadleaf species without a category\<close>

lemma five_species_not_categorised:
  "is_broadleaf ''sycamore'' = Inl ValueError_category"
  "is_broadleaf ''ash'' = Inl ValueError_category"
  "is_broadleaf ''birch'' = Inl ValueError_category"
  "is_broadleaf ''elm'' = Inl ValueError_category"
  "is_broadleaf ''poplar'' = Inl ValueError_category"
  by (simp_all add: is_broadleaf_def lower_def lower_char_def broadleaves_def conifers_def)

lemma five_species_in_table:
  "broadleaf_constants ''sycamore'' \<noteq> None"
  "broadleaf_constants ''ash'' \<noteq> None"
  "broadleaf_constants ''birch'' \<noteq> None"
  "broadleaf_constants ''elm'' \<noteq> None"
  "broadleaf_constants ''poplar'' \<noteq> None"
  by (simp_all add: broadleaf_constants_def)

lemma five_species_category:
  "species \<in> {''sycamore'', ''ash'', ''birch'', ''elm'', ''poplar''} \<Longrightarrow>
   is_broadleaf species = Inl ValueError_category"
  by (elim insertE emptyE) (simp_all only: five_species_not_categorised)

lemma five_species_tariff:
  "species \<in> {''sycamore'', ''ash'', ''birch'', ''elm'', ''poplar''} \<Longrightarrow>
   broadleaf_constants species \<noteq> None"
  by (elim insertE emptyE) (simp_all only: five_species_in_table not_False_eq_True)

lemma volume_numeric:
  assumes "broadleaf_constants species \<noteq> None"
    and "mean_tree_height ts \<noteq> None" "mean_dbh_trees ts \<noteq> None" "mean_basal_area ts \<noteq> None"
    and "species_distribution ts species \<noteq> None"
  shows "\<exists>v. calculate_tariff_numbers_and_volume ts species = Inr v \<and> total_stem_volume v \<noteq> None"
proof -
  from assms obtain b1 b2 b3 b4 h d ba al where
    c: "broadleaf_constants species = Some (b1, b2, b3, b4)" and
    h: "mean_tree_height ts = Some h" and d: "mean_dbh_trees ts = Some d" and
    ba: "mean_basal_area ts = Some ba" and al: "species_distribution ts species = Some al"
    by (cases "broadleaf_constants species") auto
  from tariff_broadleaf[OF c h d] al ba show ?thesis
    by (simp add: calculate_tariff_numbers_and_volume_def math_floor_def Let_def fadd_def fmul_def)
qed

lemma pipeline_fails:
  "is_broadleaf species = Inl e \<Longrightarrow> \<exists>e'. species_pipeline ts species = Inl e'"
  by (auto simp: species_pipeline_def calculate_carbon_and_co2_for_trees_and_saplings_def
      split: option.splits sum.splits)

lemma species_loop_fails:
  "species \<in> set ks \<Longrightarrow> is_broadleaf species = Inl e \<Longrightarrow> \<exists>e'. species_loop ts ks acc = Inl e'"
proof (induction ks arbitrary: acc)
  case Nil
  then show ?case by simp
next
  case (Cons k ks)
  show ?case
  proof (cases "species_pipeline ts k")
    case (Inl e')
    then show ?thesis by simp
  next
    case (Inr res)
    with pipeline_fails[OF Cons.prems(2), of ts] have "k \<noteq> species" by auto
    with Cons.prems have "species \<in> set ks" by simp
    from Cons.IH[OF this Cons.prems(2)] Inr show ?thesis
      by (cases res) simp
  qed
qed

text \<open>
  Claim C10. Each of sycamore, ash, birch, elm and poplar is in the broadleaf tariff table,
  and \<open>calculate_tariff_numbers_and_volume\<close> returns a numeric volume for it on a stand
  with numeric means that holds an allocation for it; its lower-cased name is in neither
  category set, so \<open>calculate_carbon_and_co2_for_trees_and_saplings\<close> raises for it on every
  input. Hence the chain of the three functions raises for such a species on every stand,
  and so does the loop over the species as soon as one of the five is among them.
\<close>

theorem tariff_accepts_carbon_rejects:
  "\<forall>species \<in> {''sycamore'', ''ash'', ''birch'', ''elm'', ''poplar''}.
     broadleaf_constants species \<noteq> None \<and>
     (\<forall>ts. mean_tree_height ts \<noteq> None \<and> mean_dbh_trees ts \<noteq> None \<and> mean_basal_area ts \<noteq> None \<and>
           species_distribution ts species \<noteq> None \<longrightarrow>
           (\<exists>v. calculate_tariff_numbers_and_volume ts species = Inr v \<and> total_stem_volume v \<noteq> None)) \<and>
     lower species \<notin> set broadleaves \<and> lower species \<notin> set conifers \<and>
     (\<forall>bs n h. calculate_carbon_and_co2_for_trees_and_saplings bs species n h = Inl ValueError_category) \<and>
     (\<forall>ts. \<exists>e. species_pipeline ts species = Inl e) \<and>
     (\<forall>ts percentages. species \<in> fst ` set percentages \<longrightarrow>
         (\<exists>e. calculate_and_print_species_biomass_and_carbon ts percentages = Inl e))"
proof (intro ballI conjI allI impI)
  fix species :: string
  assume s: "species \<in> {''sycamore'', ''ash'', ''birch'', ''elm'', ''poplar''}"
  note cat = five_species_category[OF s]
  show "broadleaf_constants species \<noteq> None" by (rule five_species_tariff[OF s])
  show "lower species \<notin> set broadleaves" "lower species \<notin> set conifers"
    using cat by (auto simp: is_broadleaf_def split: if_splits)
  show "calculate_carbon_and_co2_for_trees_and_saplings bs species n h = Inl ValueError_category"
    for bs n h
    using cat by (simp add: calculate_carbon_and_co2_for_trees_and_saplings_def)
  show "\<exists>e. species_pipeline ts species = Inl e" for ts
    by (rule pipeline_fails[OF cat])
  show "\<exists>e. calculate_and_print_species_biomass_and_carbon ts percentages = Inl e"
    if "species \<in> fst ` set percentages" for ts percentages
    unfolding calculate_and_print_species_biomass_and_carbon_def
    using that by (intro species_loop_fails[OF _ cat]) simp
  show "\<exists>v. calculate_tariff_numbers_and_volume ts species = Inr v \<and> total_stem_volume v \<noteq> None"
    if "mean_tree_height ts \<noteq> None \<and> mean_dbh_trees ts \<noteq> None \<and> mean_basal_area ts \<noteq> None \<and>
           species_distribution ts species \<noteq> None" for ts
    using volume_numeric[OF five_species_tariff[OF s], of ts] that by blast
qed

text \<open>An instance: sycamore on the example stand.\<close>

theorem tariff_accepts_carbon_rejects_witness:
  "(\<exists>v. calculate_tariff_numbers_and_volume stand_beech ''sycamore'' = Inr v \<and>
        total_stem_volume v \<noteq> None) \<and>
   calculate_carbon_and_co2_for_trees_and_saplings biomass_12 ''sycamore'' 1 (Some 3)
     = Inl ValueError_category \<and>
   (\<exists>e. species_pipeline stand_beech ''sycamore'' = Inl e) \<and>
   (\<exists>e. calculate_and_print_species_biomass_and_carbon stand_beech
          [(''beech'', 1/2), (''sycamore'', 1/2)] = Inl e)"
proof -
  have m: "''sycamore'' \<in> {''sycamore'', ''ash'', ''birch'', ''elm'', ''poplar''}" by simp
  have s: "mean_tree_height stand_beech \<noteq> None \<and> mean_dbh_trees stand_beech \<noteq> None \<and>
           mean_basal_area stand_beech \<noteq> None \<and> species_distribution stand_beech ''sycamore'' \<noteq> None"
    by (simp add: stand_beech_def)
  have p: "''sycamore'' \<in> fst ` set [(''beech'', 1/2 :: real), (''sycamore'', 1/2)]" by simp
  from bspec[OF tariff_accepts_carbon_rejects m] s p show ?thesis by blast
qed


section \<open>The allocation on the synthetic stratum\<close>

text \<open>
  Claim C8. On the stratum with diameters 5, 8, 60 and heights 2, 10, 25 and the single
  species oak at proportion 1, \<open>tree_statistics\<close> returns, counts one sapling (diameter at
  most 7), two trees (diameter above 7) and one large tree (diameter above 50, also a tree),
  and gives oak all of them: 2 trees, 1 sapling, 1 large tree.
\<close>

theorem synthetic_stratum_counts:
  "map_sum id (\<lambda>r. (number_of_saplings r, number_of_trees r, number_of_largetrees r,
                     species_distribution r ''oak'', dom (species_distribution r)))
     (tree_statistics stratum_5_8_60 [(''oak'', 1)] ''Mixed Wood'' 1)
   = Inr (1, 2, 1, Some \<lparr>trees = 2, saplings = 1, largetrees = 1\<rparr>, {''oak''})"
  by (simp add: tree_statistics_def stratum_5_8_60_def py_int_def distribute.simps Let_def)

end
